theory Spec2Isabelle
  imports Complex_Main
begin

section \<open>Values of the service\<close>

subsection \<open>Python floats and their comparisons\<close>

text \<open>
  A Python \<^verbatim>\<open>float\<close> is a finite number, one of the two infinities, or NaN. The finite
  values are taken as reals: every double is a real number, so a statement about all of
  \<open>Finite r\<close> covers every finite float. The classifier only compares its float argument
  with integer constants, and Python compares a float with an int by their exact
  mathematical values, so no rounding takes part in the decision.
\<close>

datatype pyfloat = Finite real | PosInf | NegInf | NaN

text \<open>The integer operand of a mixed comparison, at its exact value.\<close>

definition float_of_int :: "int \<Rightarrow> pyfloat" where
  "float_of_int i = Finite (real_of_int i)"

text \<open>Python's \<^verbatim>\<open><\<close> and \<^verbatim>\<open><=\<close> on floats: every comparison with NaN is false.\<close>

fun float_lt :: "pyfloat \<Rightarrow> pyfloat \<Rightarrow> bool" where
  "float_lt NaN _ = False"
| "float_lt _ NaN = False"
| "float_lt (Finite a) (Finite b) = (a < b)"
| "float_lt NegInf NegInf = False"
| "float_lt NegInf _ = True"
| "float_lt PosInf _ = False"
| "float_lt (Finite a) PosInf = True"
| "float_lt (Finite a) NegInf = False"

fun float_le :: "pyfloat \<Rightarrow> pyfloat \<Rightarrow> bool" where
  "float_le NaN _ = False"
| "float_le _ NaN = False"
| "float_le (Finite a) (Finite b) = (a \<le> b)"
| "float_le NegInf _ = True"
| "float_le PosInf PosInf = True"
| "float_le PosInf _ = False"
| "float_le (Finite a) PosInf = True"
| "float_le (Finite a) NegInf = False"

text \<open>Python's \<^verbatim>\<open>></\<close> and \<^verbatim>\<open>>=\<close> are the same comparisons with the operands swapped.\<close>

definition float_gt :: "pyfloat \<Rightarrow> pyfloat \<Rightarrow> bool" where
  "float_gt a b = float_lt b a"

definition float_ge :: "pyfloat \<Rightarrow> pyfloat \<Rightarrow> bool" where
  "float_ge a b = float_le b a"

subsection \<open>Exceptions\<close>

text \<open>
  The exceptions that can cross the \<^verbatim>\<open>try\<close> block of the handler. Of the operations
  in that block only the construction of the response can raise, and what it raises is
  pydantic's \<^verbatim>\<open>ValidationError\<close>; the value keeps the name of the field that was
  rejected.
\<close>

datatype exn = ValidationError string

text \<open>
  \<^verbatim>\<open>HTTPException(status_code, detail)\<close>. The handler's detail is the f-string
  \<^verbatim>\<open>f"Classification error: {str(e)}"\<close>: its literal text followed by the rendering of
  the caught exception. That rendering is pydantic's message, whose wording is not part of
  this repository, so the detail is kept as its two parts: the literal text and the
  exception \<^verbatim>\<open>e\<close> itself.
\<close>

datatype http_error = HTTPException int string exn

subsection \<open>Request and response schemas\<close>

text \<open>
  \<^verbatim>\<open>SensorData\<close>: the fields of the request body. The response schema below has fields
  of the same names, so the ones of the request are written with the record's name in
  front: \<open>SensorData.temperature\<close>, \<open>SensorData.co2_level\<close>.
\<close>

record SensorData =
  temperature :: pyfloat
  humidity :: int
  co2_level :: int

text \<open>
  The field constraints of \<^verbatim>\<open>SensorData\<close>: \<^verbatim>\<open>humidity\<close> has \<^verbatim>\<open>ge=0, le=100\<close>,
  \<^verbatim>\<open>co2_level\<close> has \<^verbatim>\<open>ge=0\<close>, \<^verbatim>\<open>temperature\<close> is any float.
\<close>

definition SensorData_valid :: "SensorData \<Rightarrow> bool" where
  "SensorData_valid sd \<longleftrightarrow>
     0 \<le> humidity sd \<and> humidity sd \<le> 100 \<and> 0 \<le> SensorData.co2_level sd"

text \<open>\<^verbatim>\<open>PredictionResponse\<close>: the fields of the response body.\<close>

record PredictionResponse =
  label :: string
  confidence :: pyfloat
  temperature :: pyfloat
  co2_level :: int
  processing_time_ms :: pyfloat

text \<open>
  Constructing a \<^verbatim>\<open>PredictionResponse\<close> validates it: \<^verbatim>\<open>label\<close> is
  \<^verbatim>\<open>Literal["HOT", "WARM", "COLD"]\<close> and \<^verbatim>\<open>confidence\<close> has \<^verbatim>\<open>ge=0.0, le=1.0\<close>. The
  other three fields are given values of their declared types and are accepted as they
  are. A rejected field raises \<^verbatim>\<open>ValidationError\<close>.
\<close>

definition PredictionResponse_init ::
  "string \<Rightarrow> pyfloat \<Rightarrow> pyfloat \<Rightarrow> int \<Rightarrow> pyfloat \<Rightarrow> exn + PredictionResponse" where
  "PredictionResponse_init l c t co2 pt =
     (if l \<noteq> ''HOT'' \<and> l \<noteq> ''WARM'' \<and> l \<noteq> ''COLD'' then Inl (ValidationError ''label'')
      else if \<not> (float_ge c (Finite 0) \<and> float_le c (Finite 1))
        then Inl (ValidationError ''confidence'')
      else Inr \<lparr>label = l, confidence = c, temperature = t, co2_level = co2,
                processing_time_ms = pt\<rparr>)"

section \<open>The classifier\<close>

text \<open>
  \<^verbatim>\<open>classify_sensor_data(temperature, co2_level)\<close>: the three branches of the source in
  their order, each returning the pair of a label and the literal \<^verbatim>\<open>1.0\<close>. The result is
  a sum so that the handler's \<^verbatim>\<open>try\<close> block, which encloses the call, has an exceptional
  outcome to catch.
\<close>

definition classify_sensor_data :: "pyfloat \<Rightarrow> int \<Rightarrow> exn + (string \<times> pyfloat)" where
  "classify_sensor_data temp co2 =
     (if float_gt temp (float_of_int 50) \<or> co2 > 1000 then Inr (''HOT'', Finite 1)
      else if float_gt temp (float_of_int 35) then Inr (''WARM'', Finite 1)
      else Inr (''COLD'', Finite 1))"

section \<open>The predict handler\<close>

text \<open>
  The handler reads the clock before and after the classification and stores the rounded
  difference, in milliseconds, in the response. The two clock reads and the arithmetic on
  them belong to the environment: the value \<^verbatim>\<open>round(processing_time_ms, 3)\<close> is the
  parameter \<open>pt\<close>, and every statement below holds for each of its values.

  \<open>predict_try\<close> is the body of the \<^verbatim>\<open>try\<close> block, \<open>predict\<close> the handler with its
  \<^verbatim>\<open>except Exception\<close> branch, which turns any exception of the body into
  \<^verbatim>\<open>HTTPException(status_code=500, ...)\<close>.
\<close>

definition predict_try :: "pyfloat \<Rightarrow> SensorData \<Rightarrow> exn + PredictionResponse" where
  "predict_try pt sensor_data =
     (case classify_sensor_data (SensorData.temperature sensor_data)
             (SensorData.co2_level sensor_data) of
        Inl e \<Rightarrow> Inl e
      | Inr (l, c) \<Rightarrow>
          PredictionResponse_init l c (SensorData.temperature sensor_data)
            (SensorData.co2_level sensor_data) pt)"

definition predict :: "pyfloat \<Rightarrow> SensorData \<Rightarrow> http_error + PredictionResponse" where
  "predict pt sensor_data =
     (case predict_try pt sensor_data of
        Inl e \<Rightarrow> Inl (HTTPException 500 ''Classification error: '' e)
      | Inr r \<Rightarrow> Inr r)"

section \<open>Calls in a state of the process\<close>

text \<open>
  What a function of this module can read besides its arguments is the state of the
  process, and the part of it that the module uses is the two clocks of \<^verbatim>\<open>time\<close>:
  \<^verbatim>\<open>time.time()\<close>, read by \<^verbatim>\<open>health_check\<close>, and \<^verbatim>\<open>time.perf_counter()\<close>, read by
  \<^verbatim>\<open>predict\<close>. A state gives the value that each clock returns when it is read; two
  calls made at different moments run in different states.
\<close>

record process_state =
  time_time :: pyfloat
  time_perf_counter :: pyfloat

text \<open>
  \<^verbatim>\<open>health_check()\<close>: the dictionary it returns has three fixed keys; the value under
  \<^verbatim>\<open>"timestamp"\<close> is the reading of \<^verbatim>\<open>time.time()\<close>.
\<close>

record health =
  status :: string
  service :: string
  timestamp :: pyfloat

definition health_check :: "process_state \<Rightarrow> health" where
  "health_check st =
     \<lparr>status = ''healthy'', service = ''ml-service-pmnm'', timestamp = time_time st\<rparr>"

text \<open>
  A call of \<^verbatim>\<open>classify_sensor_data\<close> in a state of the process. The body of the source
  reads no clock and no global, and calls nothing: its three branches are evaluated on
  the two arguments alone.
\<close>

definition classify_sensor_data_call ::
  "process_state \<Rightarrow> pyfloat \<Rightarrow> int \<Rightarrow> exn + (string \<times> pyfloat)" where
  "classify_sensor_data_call st temp co2 =
     (if float_gt temp (float_of_int 50) \<or> co2 > 1000 then Inr (''HOT'', Finite 1)
      else if float_gt temp (float_of_int 35) then Inr (''WARM'', Finite 1)
      else Inr (''COLD'', Finite 1))"

section \<open>Facts about the comparisons and the response\<close>

text \<open>
  The result of \<^verbatim>\<open>health_check\<close> follows the clock: calls in states with different
  readings of \<^verbatim>\<open>time.time()\<close> return different dictionaries.
\<close>

lemma health_check_reads_clock:
  "time_time st1 \<noteq> time_time st2 \<Longrightarrow> health_check st1 \<noteq> health_check st2"
  by (auto simp: health_check_def)

text \<open>A call of the classifier in a state returns what the classifier returns.\<close>

lemma classify_sensor_data_call_eq:
  "classify_sensor_data_call st t c = classify_sensor_data t c"
  by (simp add: classify_sensor_data_call_def classify_sensor_data_def)

text \<open>A float that is greater than a bound is not at most that bound, and conversely.\<close>

lemma float_gt_not_le: "float_gt t b \<Longrightarrow> \<not> float_le t b"
  by (cases t; cases b) (auto simp: float_gt_def)

lemma float_le_not_gt: "float_le t b \<Longrightarrow> \<not> float_gt t b"
  using float_gt_not_le by blast

lemma float_le_int_mono:
  "i \<le> j \<Longrightarrow> float_le t (float_of_int i) \<Longrightarrow> float_le t (float_of_int j)"
  by (cases t) (auto simp: float_of_int_def)

text \<open>The three return statements are the only results of the classifier.\<close>

lemma classify_sensor_data_cases:
  "classify_sensor_data t c = Inr (''HOT'', Finite 1) \<or>
   classify_sensor_data t c = Inr (''WARM'', Finite 1) \<or>
   classify_sensor_data t c = Inr (''COLD'', Finite 1)"
  by (simp add: classify_sensor_data_def)

text \<open>A response with one of the three labels and confidence \<^verbatim>\<open>1.0\<close> passes validation.\<close>

lemma PredictionResponse_init_ok:
  "l = ''HOT'' \<or> l = ''WARM'' \<or> l = ''COLD'' \<Longrightarrow>
   PredictionResponse_init l (Finite 1) t co2 pt =
     Inr \<lparr>label = l, confidence = Finite 1, temperature = t, co2_level = co2,
           processing_time_ms = pt\<rparr>"
  by (auto simp: PredictionResponse_init_def float_ge_def)

lemma predict_try_result:
  "\<exists>l. classify_sensor_data (SensorData.temperature sd) (SensorData.co2_level sd)
          = Inr (l, Finite 1) \<and>
        predict_try pt sd =
          Inr \<lparr>label = l, confidence = Finite 1, temperature = SensorData.temperature sd,
                co2_level = SensorData.co2_level sd, processing_time_ms = pt\<rparr>"
  using classify_sensor_data_cases [of "SensorData.temperature sd" "SensorData.co2_level sd"]
  by (auto simp: predict_try_def PredictionResponse_init_ok)

lemma predict_result:
  "\<exists>l. classify_sensor_data (SensorData.temperature sd) (SensorData.co2_level sd)
          = Inr (l, Finite 1) \<and>
        predict pt sd =
          Inr \<lparr>label = l, confidence = Finite 1, temperature = SensorData.temperature sd,
                co2_level = SensorData.co2_level sd, processing_time_ms = pt\<rparr>"
  using predict_try_result [of sd pt] by (auto simp: predict_def)

section \<open>The classification rules\<close>

text \<open>
  C1. If the temperature is greater than 50 or the CO2 level is greater than 1000, the
  classifier returns the label HOT, whatever the other argument is (an infinite or NaN
  temperature included).
\<close>

theorem classify_hot:
  "float_gt t (float_of_int 50) \<or> 1000 < c \<Longrightarrow>
   \<exists>conf. classify_sensor_data t c = Inr (''HOT'', conf)"
  by (auto simp: classify_sensor_data_def)

theorem classify_hot_witness:
  "(float_gt (Finite 50.01) (float_of_int 50) \<or> (1000::int) < 0) \<and>
   (\<exists>conf. classify_sensor_data (Finite 50.01) 0 = Inr (''HOT'', conf)) \<and>
   (float_gt NaN (float_of_int 50) \<or> (1000::int) < 1001) \<and>
   (\<exists>conf. classify_sensor_data NaN 1001 = Inr (''HOT'', conf))"
proof -
  have a: "float_gt (Finite 50.01) (float_of_int 50) \<or> (1000::int) < 0"
    by (simp add: float_gt_def float_of_int_def)
  have b: "float_gt NaN (float_of_int 50) \<or> (1000::int) < 1001"
    by simp
  show ?thesis
    using a b classify_hot [OF a] classify_hot [OF b] by blast
qed

text \<open>
  C2. With a CO2 level of at most 1000, a temperature strictly greater than 35 and at most
  50 gives the label WARM. In particular the temperature 50 itself gives WARM and not HOT:
  the comparison with 50 is strict.
\<close>

theorem classify_warm:
  "c \<le> 1000 \<Longrightarrow>
   (float_gt t (float_of_int 35) \<and> float_le t (float_of_int 50) \<longrightarrow>
      (\<exists>conf. classify_sensor_data t c = Inr (''WARM'', conf))) \<and>
   (\<exists>conf. classify_sensor_data (Finite 50) c = Inr (''WARM'', conf)) \<and>
   (\<forall>conf. classify_sensor_data (Finite 50) c \<noteq> Inr (''HOT'', conf))"
  using float_gt_not_le [of t "float_of_int 50"]
  by (auto simp: classify_sensor_data_def float_gt_def float_of_int_def)

theorem classify_warm_witness:
  "(850::int) \<le> 1000 \<and>
   float_gt (Finite 45.5) (float_of_int 35) \<and> float_le (Finite 45.5) (float_of_int 50) \<and>
   (\<exists>conf. classify_sensor_data (Finite 45.5) 850 = Inr (''WARM'', conf)) \<and>
   (\<exists>conf. classify_sensor_data (Finite 50) 850 = Inr (''WARM'', conf))"
proof -
  have c: "(850::int) \<le> 1000" by simp
  have t: "float_gt (Finite 45.5) (float_of_int 35) \<and> float_le (Finite 45.5) (float_of_int 50)"
    by (simp add: float_gt_def float_of_int_def)
  show ?thesis
    using c t classify_warm [OF c, of "Finite 45.5"] by blast
qed

text \<open>
  C3. With a CO2 level of at most 1000, a temperature of at most 35 gives the label COLD.
  In particular the temperature 35 itself gives COLD and not WARM, and a CO2 level of
  exactly 1000 does not by itself give HOT: with a temperature that is not greater than
  50 the label at CO2 level 1000 is not HOT.
\<close>

theorem classify_cold:
  "c \<le> 1000 \<Longrightarrow>
   (float_le t (float_of_int 35) \<longrightarrow>
      (\<exists>conf. classify_sensor_data t c = Inr (''COLD'', conf))) \<and>
   (\<exists>conf. classify_sensor_data (Finite 35) c = Inr (''COLD'', conf)) \<and>
   (\<forall>conf. classify_sensor_data (Finite 35) c \<noteq> Inr (''WARM'', conf)) \<and>
   (\<not> float_gt t (float_of_int 50) \<longrightarrow>
      (\<forall>conf. classify_sensor_data t 1000 \<noteq> Inr (''HOT'', conf)))"
  using float_le_not_gt [of t "float_of_int 35"] float_le_int_mono [of 35 50 t]
    float_le_not_gt [of t "float_of_int 50"]
  by (auto simp: classify_sensor_data_def float_gt_def float_of_int_def)

theorem classify_cold_witness:
  "(1000::int) \<le> 1000 \<and> float_le (Finite 0) (float_of_int 35) \<and>
   \<not> float_gt (Finite 0) (float_of_int 50) \<and>
   (\<exists>conf. classify_sensor_data (Finite 0) 1000 = Inr (''COLD'', conf)) \<and>
   (\<exists>conf. classify_sensor_data (Finite 35) 1000 = Inr (''COLD'', conf)) \<and>
   (\<forall>conf. classify_sensor_data (Finite 0) 1000 \<noteq> Inr (''HOT'', conf))"
proof -
  have c: "(1000::int) \<le> 1000" by simp
  have t: "float_le (Finite 0) (float_of_int 35) \<and> \<not> float_gt (Finite 0) (float_of_int 50)"
    by (simp add: float_gt_def float_of_int_def)
  show ?thesis
    using c t classify_cold [OF c, of "Finite 0"] by blast
qed

text \<open>
  C4. For every temperature and every CO2 level, the confidence component of the
  classifier's result is exactly \<^verbatim>\<open>1.0\<close>.
\<close>

theorem classify_confidence:
  "\<exists>l. classify_sensor_data t c = Inr (l, Finite 1)"
  by (simp add: classify_sensor_data_def)

text \<open>
  C5. For every input the label returned by the classifier is HOT, WARM or COLD, and
  nothing else; each of the three is the label of some input.
\<close>

theorem classify_label_closed:
  "(\<exists>l conf. classify_sensor_data t c = Inr (l, conf) \<and>
      (l = ''HOT'' \<or> l = ''WARM'' \<or> l = ''COLD'')) \<and>
   (\<exists>t' c' conf. classify_sensor_data t' c' = Inr (''HOT'', conf)) \<and>
   (\<exists>t' c' conf. classify_sensor_data t' c' = Inr (''WARM'', conf)) \<and>
   (\<exists>t' c' conf. classify_sensor_data t' c' = Inr (''COLD'', conf))"
proof -
  have "\<exists>l conf. classify_sensor_data t c = Inr (l, conf) \<and>
      (l = ''HOT'' \<or> l = ''WARM'' \<or> l = ''COLD'')"
    by (simp add: classify_sensor_data_def)
  moreover have "classify_sensor_data (Finite 0) 1001 = Inr (''HOT'', Finite 1)"
    by (simp add: classify_sensor_data_def)
  moreover have "classify_sensor_data (Finite 40) 0 = Inr (''WARM'', Finite 1)"
    by (simp add: classify_sensor_data_def float_gt_def float_of_int_def)
  moreover have "classify_sensor_data (Finite 0) 0 = Inr (''COLD'', Finite 1)"
    by (simp add: classify_sensor_data_def float_gt_def float_of_int_def)
  ultimately show ?thesis by blast
qed

text \<open>
  C6. The classifier is total: for every temperature (finite, infinite or NaN) and every
  integer CO2 level it returns a pair of a label and a confidence and raises nothing; the
  last branch takes every input that the first two conditions leave.
\<close>

theorem classify_total:
  "(\<exists>l conf. classify_sensor_data t c = Inr (l, conf)) \<and>
   (\<forall>e. classify_sensor_data t c \<noteq> Inl e)"
  by (simp add: classify_sensor_data_def)

text \<open>
  C7. The classifier is deterministic: two calls with the same temperature and the same
  CO2 level return the same pair of label and confidence, in whatever states of the
  process the two calls are made (at whatever readings of the clocks).
\<close>

theorem classify_deterministic:
  "t1 = t2 \<Longrightarrow> c1 = c2 \<Longrightarrow>
   \<exists>l conf. classify_sensor_data_call st1 t1 c1 = Inr (l, conf) \<and>
            classify_sensor_data_call st2 t2 c2 = Inr (l, conf)"
  using classify_sensor_data_cases [of t1 c1]
  by (auto simp: classify_sensor_data_call_eq)

theorem classify_deterministic_witness:
  "Finite 45.5 = Finite (91 / 2) \<and> (850::int) = 800 + 50 \<and>
   (\<exists>l conf.
      classify_sensor_data_call \<lparr>time_time = Finite 1000, time_perf_counter = Finite 1\<rparr>
        (Finite 45.5) 850 = Inr (l, conf) \<and>
      classify_sensor_data_call \<lparr>time_time = Finite 2000, time_perf_counter = NaN\<rparr>
        (Finite (91 / 2)) (800 + 50) = Inr (l, conf))"
proof -
  have t: "Finite 45.5 = Finite (91 / 2)" by simp
  have c: "(850::int) = 800 + 50" by simp
  show ?thesis
    using t c
      classify_deterministic [OF t c,
        of "\<lparr>time_time = Finite 1000, time_perf_counter = Finite 1\<rparr>"
           "\<lparr>time_time = Finite 2000, time_perf_counter = NaN\<rparr>"]
    by blast
qed

section \<open>The handler\<close>

text \<open>
  C8. For every valid request the handler answers with a response whose temperature and
  CO2 level are those of the request, unchanged, and whose label and confidence are the
  pair that the classifier returns on that temperature and CO2 level.
\<close>

theorem predict_echo:
  "SensorData_valid sd \<Longrightarrow>
   \<exists>l c r. classify_sensor_data (SensorData.temperature sd) (SensorData.co2_level sd)
              = Inr (l, c) \<and>
            predict pt sd = Inr r \<and>
            temperature r = SensorData.temperature sd \<and>
            co2_level r = SensorData.co2_level sd \<and>
            label r = l \<and> confidence r = c"
proof -
  obtain l where
    "classify_sensor_data (SensorData.temperature sd) (SensorData.co2_level sd)
       = Inr (l, Finite 1)"
    and "predict pt sd =
          Inr \<lparr>label = l, confidence = Finite 1, temperature = SensorData.temperature sd,
                co2_level = SensorData.co2_level sd, processing_time_ms = pt\<rparr>"
    using predict_result [of sd pt] by blast
  then show ?thesis by simp
qed

theorem predict_echo_witness:
  "SensorData_valid
     \<lparr>SensorData.temperature = Finite 45.5, humidity = 65, SensorData.co2_level = 850\<rparr> \<and>
   (\<exists>r. predict (Finite 0.5)
          \<lparr>SensorData.temperature = Finite 45.5, humidity = 65, SensorData.co2_level = 850\<rparr>
          = Inr r \<and>
        temperature r = Finite 45.5 \<and> co2_level r = 850 \<and>
        label r = ''WARM'' \<and> confidence r = Finite 1)"
proof -
  let ?sd = "\<lparr>SensorData.temperature = Finite 45.5, humidity = 65,
              SensorData.co2_level = 850\<rparr>"
  have v: "SensorData_valid ?sd"
    by (simp add: SensorData_valid_def)
  have k: "classify_sensor_data (Finite 45.5) 850 = Inr (''WARM'', Finite 1)"
    by (simp add: classify_sensor_data_def float_gt_def float_of_int_def)
  show ?thesis
    using v k predict_echo [OF v, of "Finite 0.5"] by auto
qed

text \<open>
  C9. Humidity has no influence on the classification: two valid requests with the same
  temperature and the same CO2 level, whatever their humidities and whatever the two
  measured processing times, get responses with the same label and the same confidence.
\<close>

theorem predict_humidity_irrelevant:
  "SensorData_valid sd1 \<Longrightarrow> SensorData_valid sd2 \<Longrightarrow>
   SensorData.temperature sd1 = SensorData.temperature sd2 \<Longrightarrow>
   SensorData.co2_level sd1 = SensorData.co2_level sd2 \<Longrightarrow>
   \<exists>r1 r2. predict pt1 sd1 = Inr r1 \<and> predict pt2 sd2 = Inr r2 \<and>
           label r1 = label r2 \<and> confidence r1 = confidence r2"
  using predict_result [of sd1 pt1] predict_result [of sd2 pt2] by auto

theorem predict_humidity_irrelevant_witness:
  "SensorData_valid
     \<lparr>SensorData.temperature = Finite 45.5, humidity = 0, SensorData.co2_level = 850\<rparr> \<and>
   SensorData_valid
     \<lparr>SensorData.temperature = Finite 45.5, humidity = 100, SensorData.co2_level = 850\<rparr> \<and>
   (\<exists>r1 r2.
      predict (Finite 0.5)
        \<lparr>SensorData.temperature = Finite 45.5, humidity = 0, SensorData.co2_level = 850\<rparr>
        = Inr r1 \<and>
      predict (Finite 0.25)
        \<lparr>SensorData.temperature = Finite 45.5, humidity = 100, SensorData.co2_level = 850\<rparr>
        = Inr r2 \<and>
      label r1 = label r2 \<and> confidence r1 = confidence r2)"
proof -
  let ?a = "\<lparr>SensorData.temperature = Finite 45.5, humidity = 0,
             SensorData.co2_level = 850\<rparr>"
  let ?b = "\<lparr>SensorData.temperature = Finite 45.5, humidity = 100,
             SensorData.co2_level = 850\<rparr>"
  have va: "SensorData_valid ?a" and vb: "SensorData_valid ?b"
    by (simp_all add: SensorData_valid_def)
  have t: "SensorData.temperature ?a = SensorData.temperature ?b"
    and c: "SensorData.co2_level ?a = SensorData.co2_level ?b"
    by simp_all
  show ?thesis
    using va vb predict_humidity_irrelevant [OF va vb t c, of "Finite 0.5" "Finite 0.25"]
    by blast
qed

text \<open>
  C10. For every valid request the \<^verbatim>\<open>except\<close> branch of the handler is not taken:
  neither the classification nor the construction of the response raises, so the body of
  the \<^verbatim>\<open>try\<close> block returns a response, the handler returns that response, and it
  never answers with an \<^verbatim>\<open>HTTPException\<close>, of status 500 or any other.
\<close>

theorem predict_no_internal_error:
  "SensorData_valid sd \<Longrightarrow>
   (\<exists>r. predict_try pt sd = Inr r) \<and> (\<exists>r. predict pt sd = Inr r) \<and>
   (\<forall>status text e. predict pt sd \<noteq> Inl (HTTPException status text e))"
  using predict_try_result [of sd pt] predict_result [of sd pt] by auto

theorem predict_no_internal_error_witness:
  "SensorData_valid
     \<lparr>SensorData.temperature = NaN, humidity = 65, SensorData.co2_level = 850\<rparr> \<and>
   (\<exists>r. predict (Finite 0.5)
          \<lparr>SensorData.temperature = NaN, humidity = 65, SensorData.co2_level = 850\<rparr>
          = Inr r)"
proof -
  let ?sd = "\<lparr>SensorData.temperature = NaN, humidity = 65, SensorData.co2_level = 850\<rparr>"
  have v: "SensorData_valid ?sd"
    by (simp add: SensorData_valid_def)
  show ?thesis
    using v predict_no_internal_error [OF v, of "Finite 0.5"] by blast
qed

end
